theory Spec2Isabelle
  imports Main
begin

section \<open>Values, paths and faults\<close>

text \<open>
  The payloads a Field carries are JavaScript values (\<open>any\<close> in the source). They are kept
  structural: two values are equal when they have the same shape and content. Numbers are
  restricted to integers and functions are opaque handles.
\<close>

datatype val =
    Undefined
  | Null
  | Bool bool
  | Num int
  | Str string
  | Fn nat
  | Arr "val list"
  | Obj "(string \<times> val) list"

text \<open>
  A raise of the source is a value of the model. \<open>TypeError\<close> is JavaScript's fault on a member
  access through \<open>undefined\<close> and on \<open>Object.assign\<close> to \<open>undefined\<close> or \<open>null\<close>.
  \<open>MobXError\<close> is the error that the Observable Primitive raises on an annotation it refuses.
  \<open>Unmodelled\<close> marks a step whose outcome is decided by code outside \<open>Field.ts\<close> on which
  the specification is silent: the model stops there instead of guessing.
\<close>

datatype fault = TypeError | MobXError | Unmodelled

type_synonym path = "string list"

type_synonym ref = nat

text \<open>The address of a JavaScript array that is shared by reference (a binding slot).\<close>

type_synonym aref = nat

text \<open>
  Modelled from the spec: \<open>FormPath.toString()\<close> of the external Path Model. A Path is its
  ordered list of segments; its identifier is the dotted address (\<open>a.b.0.c\<close>), empty for the
  path without segments.
\<close>

fun toString :: "path \<Rightarrow> string" where
  "toString [] = []"
| "toString [s] = s"
| "toString (s # t # ss) = s @ ''.'' @ toString (t # ss)"

text \<open>
  Modelled from the spec: \<open>FormPath.parent()\<close> of the external Path Model. The parent drops the
  last segment; the ancestors of a path end in the path without segments (the spec's walks
  reach the "empty identifier"), which is its own parent.
\<close>

definition parent_path :: "path \<Rightarrow> path" where
  "parent_path p = butlast p"

text \<open>
  Modelled from the spec: \<open>isValid\<close> of the shared helpers. A value is valid when it is present
  and not an invalid marker: neither \<open>undefined\<close> nor \<open>null\<close>.
\<close>

definition isValid :: "val \<Rightarrow> bool" where
  "isValid v = (v \<noteq> Undefined \<and> v \<noteq> Null)"

text \<open>
  Modelled from the spec: \<open>toJS\<close> of the Observable Primitive, the deep, detached snapshot of a
  value. Values are structural here, so the snapshot of a value is that value.
\<close>

definition toJS :: "val \<Rightarrow> val" where
  "toJS v = v"

text \<open>JavaScript truthiness, as used by \<open>if (component)\<close> and \<open>if (props)\<close>.\<close>

fun truthy :: "val \<Rightarrow> bool" where
  "truthy Undefined = False"
| "truthy Null = False"
| "truthy (Bool b) = b"
| "truthy (Num n) = (n \<noteq> 0)"
| "truthy (Str s) = (s \<noteq> [])"
| "truthy (Fn h) = True"
| "truthy (Arr xs) = True"
| "truthy (Obj kvs) = True"

text \<open>
  Reading and writing a JavaScript array by index: a read out of range is \<open>undefined\<close>, a
  write out of range extends the array (the holes read as \<open>undefined\<close>).
\<close>

definition js_index :: "val list \<Rightarrow> nat \<Rightarrow> val" where
  "js_index xs i = (if i < length xs then xs ! i else Undefined)"

definition js_assign :: "val list \<Rightarrow> nat \<Rightarrow> val \<Rightarrow> val list" where
  "js_assign xs i v =
     (if i < length xs then xs[i := v]
      else xs @ replicate (i - length xs) Undefined @ [v])"

text \<open>
  \<open>Object.assign(target, source)\<close>. A target that is \<open>undefined\<close> or \<open>null\<close> raises
  TypeError. The own keys of a plain object source are written into a plain object target,
  a key already present keeping its position. \<open>undefined\<close>, \<open>null\<close>, booleans and numbers have
  no own keys as a source; a boolean or number target is wrapped, the wrapper is dropped and
  the target itself stays as it was. Strings, arrays and functions, as target or as source,
  are left out of the model.
\<close>

fun obj_set :: "string \<Rightarrow> val \<Rightarrow> (string \<times> val) list \<Rightarrow> (string \<times> val) list" where
  "obj_set k v [] = [(k, v)]"
| "obj_set k v ((k', v') # kvs) =
     (if k' = k then (k, v) # kvs else (k', v') # obj_set k v kvs)"



section \<open>The Field and its Form\<close>

datatype FieldDisplayTypes = none | hidden | visibility

datatype FieldPatternTypes = editable | readOnly | disabled | readPretty

text \<open>
  Modelled from the spec: the validator description and \<open>parseDescriptions\<close> of the external
  Validator Engine. A description is object-shaped (one rule-description) or array-shaped (a
  sequence of rule-descriptions); a rule-description optionally carries a \<open>required\<close> boolean
  (\<open>None\<close>: the key is absent) beside rules that this core does not read.
  \<open>parseDescriptions\<close> yields the sequence of rule-description objects: the one of an
  object-shaped description, the elements of an array-shaped one, none for an absent validator.

  An array-shaped description is a JavaScript array and so an object: beside its elements it
  can carry a property of its own named \<open>required\<close> (the second component, \<open>None\<close> when the
  array has no such property). \<open>parseDescriptions\<close> reads the elements only.
\<close>

record description =
  required :: "bool option"
  rules :: "(string \<times> val) list"

datatype Validator =
    NoValidator
  | ObjectValidator description
  | ArrayValidator "description list" "bool option"

fun parseDescriptions :: "Validator \<Rightarrow> description list" where
  "parseDescriptions NoValidator = []"
| "parseDescriptions (ObjectValidator d) = [d]"
| "parseDescriptions (ArrayValidator ds own) = ds"

text \<open>
  \<open>isObj\<close> and \<open>isArr\<close>, which \<open>Field.ts\<close> imports from the shared helpers. \<open>isObj\<close> is the test
  \<open>typeof v === 'object'\<close>: it holds of a plain object and of an array alike, and not of
  \<open>undefined\<close>. \<open>isArr\<close> is \<open>Array.isArray\<close>.
\<close>

fun isObj :: "Validator \<Rightarrow> bool" where
  "isObj (ObjectValidator d) = True"
| "isObj (ArrayValidator ds own) = True"
| "isObj NoValidator = False"

fun isArr :: "Validator \<Rightarrow> bool" where
  "isArr (ArrayValidator ds own) = True"
| "isArr v = False"

text \<open>
  \<open>IFieldProps\<close>: every member is optional. An absent \<open>value\<close> or \<open>initialValue\<close> reads as
  \<open>undefined\<close>, an absent validator is \<open>NoValidator\<close>; for the members that
  \<open>Field.defaultProps\<close> sets, \<open>None\<close> is the absent key. A \<open>decorator\<close> or \<open>component\<close> is an
  array, passed by reference: the props hold its address.
\<close>

record IFieldProps =
  props_value :: val
  props_initialValue :: val
  props_void :: "bool option"
  props_display :: "FieldDisplayTypes option"
  props_pattern :: "FieldPatternTypes option"
  props_validator :: Validator
  props_decorator :: "aref option"
  props_component :: "aref option"

text \<open>
  The model holds one Form. The \<open>form\<close> slot of a Field is unset (\<open>None\<close>, JavaScript's
  \<open>undefined\<close>) or refers to that Form; the \<open>path\<close> slot is unset or holds the Field's Path.
  \<open>Field.ts\<close> declares both slots and never assigns them. The \<open>decorator\<close> and \<open>component\<close>
  slots are unset or hold the address of the slot's array.
\<close>

datatype form_ref = TheForm

record field =
  void :: bool
  display :: "FieldDisplayTypes option"
  pattern :: "FieldPatternTypes option"
  loading :: bool
  validating :: bool
  modified :: bool
  active :: bool
  visited :: bool
  inputValue :: val
  inputValues :: "val list"
  recycledValue :: val
  initialized :: bool
  mounted :: bool
  unmounted :: bool
  validator :: Validator
  decorator :: "aref option"
  component :: "aref option"
  form :: "form_ref option"
  path :: "path option"
  props :: IFieldProps

datatype LifeCycleTypes =
    ON_FIELD_INIT
  | ON_FIELD_MOUNT
  | ON_FIELD_UNMOUNT
  | ON_FIELD_VALUE_CHANGE
  | ON_FIELD_INPUT_CHANGE
  | ON_FIELD_INITIAL_VALUE_CHANGE
  | ON_FIELD_VALIDATE_START
  | ON_FIELD_VALIDATE_END
  | ON_FIELD_RESET
  | ON_FORM_VALUES_CHANGE
  | ON_FORM_INPUT_CHANGE
  | ON_FORM_INITIAL_VALUES_CHANGE

datatype payload = FieldPayload ref | FormPayload

datatype feedback_type = error | warning | success

datatype feedback_code =
  ValidateError | ValidateWarning | ValidateSuccess | EffectError | EffectWarning

record feedback_entry =
  entry_type :: feedback_type
  entry_code :: feedback_code
  entry_path :: path
  entry_messages :: "val list"

text \<open>
  The state: the Field objects by address (\<open>heap\<close>), the arrays of the binding slots by
  address (\<open>arrays\<close>) and the Form. Objects inside a slot's array are kept by value: an object
  that two arrays share is not modelled. Of the Form the state holds the
  registry \<open>form.fields\<close> (identifier to Field), the two value trees, the Feedback Store, the
  \<open>modified\<close> flag and the notifications sent so far.

  Modelled from the spec: the Form's value trees (\<open>Form.ts\<close> is not part of the sources). The
  spec gives two trees addressed by Path, with get and set in a path and
  \<open>FormPath.existIn\<close>. The model keeps, for each Path, the value stored there: a Path that was
  never written or was removed is absent and reads as \<open>undefined\<close>. How a write at a
  Path changes the values at its ancestors and descendants is not modelled.
\<close>

record world =
  heap :: "ref \<Rightarrow> field"
  arrays :: "aref \<Rightarrow> val list"
  form_fields :: "string \<rightharpoonup> ref"
  "values" :: "path \<rightharpoonup> val"
  initialValues :: "path \<rightharpoonup> val"
  feedback :: "feedback_entry list"
  form_modified :: bool
  notified :: "(LifeCycleTypes \<times> payload) list"

text \<open>Modelled from the spec: \<open>Form.getValuesIn\<close>, the value stored in the values tree at a Path.\<close>

definition getValuesIn :: "path \<Rightarrow> world \<Rightarrow> val" where
  "getValuesIn p w = (case values w p of None \<Rightarrow> Undefined | Some v \<Rightarrow> v)"

text \<open>Modelled from the spec: \<open>Form.setValuesIn\<close>, writing a value into the values tree at a Path.\<close>

definition setValuesIn :: "path \<Rightarrow> val \<Rightarrow> world \<Rightarrow> world" where
  "setValuesIn p v w = w\<lparr>values := (values w)(p \<mapsto> v)\<rparr>"

text \<open>Modelled from the spec: \<open>Form.getInitialValuesIn\<close>, the same read on the initialValues tree.\<close>

definition getInitialValuesIn :: "path \<Rightarrow> world \<Rightarrow> val" where
  "getInitialValuesIn p w = (case initialValues w p of None \<Rightarrow> Undefined | Some v \<Rightarrow> v)"

text \<open>Modelled from the spec: \<open>Form.setInitialValuesIn\<close>, the same write on the initialValues tree.\<close>

definition setInitialValuesIn :: "path \<Rightarrow> val \<Rightarrow> world \<Rightarrow> world" where
  "setInitialValuesIn p v w = w\<lparr>initialValues := (initialValues w)(p \<mapsto> v)\<rparr>"

text \<open>
  Modelled from the spec: \<open>FormPath.existIn(form.values, path)\<close>, whether the Path exists in
  the values tree.
\<close>

definition existIn :: "world \<Rightarrow> path \<Rightarrow> bool" where
  "existIn w p = (values w p \<noteq> None)"

text \<open>
  Modelled from the spec: \<open>Form.notify(event, payload)\<close>, the fan-out to the lifecycle
  subscribers. The subscribers are external: the model records each notification, in call
  order, and runs no subscriber.
\<close>

definition notify :: "LifeCycleTypes \<Rightarrow> payload \<Rightarrow> world \<Rightarrow> world" where
  "notify ev pl w = w\<lparr>notified := notified w @ [(ev, pl)]\<rparr>"

text \<open>
  Modelled from the spec: \<open>update\<close> of the Feedback Store (\<open>Feedback.ts\<close> is not part of the
  sources). It upserts the entry keyed by (path, code), replacing its message list; an empty
  message list is the same as no entry.
\<close>

definition feedback_update :: "feedback_entry \<Rightarrow> world \<Rightarrow> world" where
  "feedback_update e w =
     (let others = filter (\<lambda>x. \<not> (entry_path x = entry_path e \<and> entry_code x = entry_code e))
                     (feedback w)
      in w\<lparr>feedback := (if entry_messages e = [] then others else others @ [e])\<rparr>)"

definition upd_field :: "ref \<Rightarrow> (field \<Rightarrow> field) \<Rightarrow> world \<Rightarrow> world" where
  "upd_field this g w = w\<lparr>heap := (heap w)(this := g (heap w this))\<rparr>"

subsection \<open>Derived getters\<close>

text \<open>
  \<open>get initialValue()\<close> and \<open>get value()\<close>. The read through an unset \<open>form\<close> slot raises
  TypeError; what the Form does with an unset path is not modelled.
\<close>

definition get_initialValue :: "ref \<Rightarrow> world \<Rightarrow> fault + val" where
  "get_initialValue this w =
     (case form (heap w this) of
        None \<Rightarrow> Inl TypeError
      | Some F \<Rightarrow>
          (case path (heap w this) of
             None \<Rightarrow> Inl Unmodelled
           | Some p \<Rightarrow> Inr (getInitialValuesIn p w)))"

definition get_value :: "ref \<Rightarrow> world \<Rightarrow> fault + val" where
  "get_value this w =
     (case form (heap w this) of
        None \<Rightarrow> Inl TypeError
      | Some F \<Rightarrow>
          (case path (heap w this) of
             None \<Rightarrow> Inl Unmodelled
           | Some p \<Rightarrow>
               (let v = getValuesIn p w in
                if modified (heap w this) then Inr v
                else if isValid v then Inr v
                else get_initialValue this w)))"

text \<open>
  \<open>get parent()\<close>. The loop of the getter is \<open>parent_walk\<close>: it leaves only at an identifier
  that the registry holds. A walk that never leaves has the value \<open>None\<close>.
\<close>

partial_function (option) parent_walk :: "(string \<rightharpoonup> ref) \<Rightarrow> path \<Rightarrow> ref option" where
  "parent_walk reg p =
     (case reg (toString p) of
        Some r \<Rightarrow> Some r
      | None \<Rightarrow> parent_walk reg (parent_path p))"

definition get_parent :: "ref \<Rightarrow> world \<Rightarrow> (fault + ref) option" where
  "get_parent this w =
     (case path (heap w this) of
        None \<Rightarrow> Some (Inl TypeError)
      | Some p \<Rightarrow>
          (case form (heap w this) of
             None \<Rightarrow> Some (Inl TypeError)
           | Some F \<Rightarrow> map_option Inr (parent_walk (form_fields w) (parent_path p))))"

text \<open>
  \<open>get computedDisplay()\<close> and \<open>get computedPattern()\<close>: the own slot when it is set, else the
  \<open>display\<close> (\<open>pattern\<close>) slot of the Field that \<open>parent\<close> returns.
\<close>

definition get_computedDisplay :: "ref \<Rightarrow> world \<Rightarrow> (fault + FieldDisplayTypes option) option" where
  "get_computedDisplay this w =
     (case display (heap w this) of
        Some d \<Rightarrow> Some (Inr (Some d))
      | None \<Rightarrow>
          (case get_parent this w of
             None \<Rightarrow> None
           | Some (Inl e) \<Rightarrow> Some (Inl e)
           | Some (Inr r) \<Rightarrow> Some (Inr (display (heap w r)))))"

definition get_computedPattern :: "ref \<Rightarrow> world \<Rightarrow> (fault + FieldPatternTypes option) option" where
  "get_computedPattern this w =
     (case pattern (heap w this) of
        Some d \<Rightarrow> Some (Inr (Some d))
      | None \<Rightarrow>
          (case get_parent this w of
             None \<Rightarrow> None
           | Some (Inl e) \<Rightarrow> Some (Inl e)
           | Some (Inr r) \<Rightarrow> Some (Inr (pattern (heap w r)))))"

definition get_required :: "ref \<Rightarrow> world \<Rightarrow> bool" where
  "get_required this w =
     list_ex (\<lambda>desc. required desc = Some True) (parseDescriptions (validator (heap w this)))"

subsection \<open>Mutators\<close>

text \<open>
  A synchronous method yields the state it leaves or the fault it raises; the state that a
  raise leaves behind is not tracked.
\<close>

definition setValidator :: "ref \<Rightarrow> Validator \<Rightarrow> world \<Rightarrow> world" where
  "setValidator this v w = upd_field this (\<lambda>f. f\<lparr>validator := v\<rparr>) w"

text \<open>
  \<open>this.validator['required'] = required\<close>: on an object-shaped description it writes the
  key of the rule-description; on an array it writes the array's own property and leaves the
  elements as they are. \<open>elements\<close> and \<open>own_required\<close> read the two parts of an array.
\<close>

fun assign_required :: "bool \<Rightarrow> Validator \<Rightarrow> Validator" where
  "assign_required req (ObjectValidator d) = ObjectValidator (d\<lparr>required := Some req\<rparr>)"
| "assign_required req (ArrayValidator ds own) = ArrayValidator ds (Some req)"
| "assign_required req NoValidator = NoValidator"

fun elements :: "Validator \<Rightarrow> description list" where
  "elements (ArrayValidator ds own) = ds"
| "elements v = []"

fun own_required :: "Validator \<Rightarrow> bool option" where
  "own_required (ArrayValidator ds own) = own"
| "own_required v = None"

definition setRequired :: "ref \<Rightarrow> bool \<Rightarrow> world \<Rightarrow> world" where
  "setRequired this req w =
     (let v = validator (heap w this);
          hasRequired = list_ex (\<lambda>desc. required desc \<noteq> None) (parseDescriptions v)
      in if hasRequired then
           (if isObj v then
              upd_field this (\<lambda>f. f\<lparr>validator := assign_required req v\<rparr>) w
            else if isArr v then
              upd_field this (\<lambda>f. f\<lparr>validator := ArrayValidator
                (map (\<lambda>desc. if required desc \<noteq> None then desc\<lparr>required := Some req\<rparr>
                             else desc) (elements v))
                (own_required v)\<rparr>) w
            else w)
         else
           (if isObj v then
              upd_field this (\<lambda>f. f\<lparr>validator := assign_required req v\<rparr>) w
            else if isArr v then
              upd_field this (\<lambda>f. f\<lparr>validator := ArrayValidator
                (elements v @ [\<lparr>required = Some True, rules = []\<rparr>])
                (own_required v)\<rparr>) w
            else w))"

definition setValue :: "ref \<Rightarrow> val \<Rightarrow> world \<Rightarrow> fault + world" where
  "setValue this v w =
     (if void (heap w this) then Inr w
      else case form (heap w this) of
             None \<Rightarrow> Inl TypeError
           | Some F \<Rightarrow>
               (case path (heap w this) of
                  None \<Rightarrow> Inl Unmodelled
                | Some p \<Rightarrow>
                    Inr (notify ON_FORM_VALUES_CHANGE FormPayload
                          (notify ON_FIELD_VALUE_CHANGE (FieldPayload this)
                            (setValuesIn p v w)))))"

definition setInitialValue :: "ref \<Rightarrow> val \<Rightarrow> world \<Rightarrow> fault + world" where
  "setInitialValue this v w =
     (if void (heap w this) then Inr w
      else case form (heap w this) of
             None \<Rightarrow> Inl TypeError
           | Some F \<Rightarrow>
               (case path (heap w this) of
                  None \<Rightarrow> Inl Unmodelled
                | Some p \<Rightarrow>
                    Inr (notify ON_FORM_INITIAL_VALUES_CHANGE FormPayload
                          (notify ON_FIELD_INITIAL_VALUE_CHANGE (FieldPayload this)
                            (setInitialValuesIn p v w)))))"

text \<open>\<open>setDisplay(type)\<close>; \<open>this.setValue()\<close> is \<open>setValue\<close> of \<open>undefined\<close>.\<close>

definition setDisplay :: "ref \<Rightarrow> FieldDisplayTypes \<Rightarrow> world \<Rightarrow> fault + world" where
  "setDisplay this type w =
     (case (if type = visibility then
              (if display (heap w this) = Some none then
                 (case setValue this (recycledValue (heap w this)) w of
                    Inl e \<Rightarrow> Inl e
                  | Inr w1 \<Rightarrow> Inr (upd_field this (\<lambda>f. f\<lparr>recycledValue := Null\<rparr>) w1))
               else Inr w)
            else if type = none then
              (case get_value this w of
                 Inl e \<Rightarrow> Inl e
               | Inr v \<Rightarrow> setValue this Undefined
                            (upd_field this (\<lambda>f. f\<lparr>recycledValue := toJS v\<rparr>) w))
            else Inr w) of
        Inl e \<Rightarrow> Inl e
      | Inr w2 \<Rightarrow> Inr (upd_field this (\<lambda>f. f\<lparr>display := Some type\<rparr>) w2))"

definition setPattern :: "ref \<Rightarrow> FieldPatternTypes \<Rightarrow> world \<Rightarrow> world" where
  "setPattern this type w = upd_field this (\<lambda>f. f\<lparr>pattern := Some type\<rparr>) w"

definition setLoading :: "ref \<Rightarrow> bool \<Rightarrow> world \<Rightarrow> world" where
  "setLoading this b w = upd_field this (\<lambda>f. f\<lparr>loading := b\<rparr>) w"

definition setValidating :: "ref \<Rightarrow> bool \<Rightarrow> world \<Rightarrow> world" where
  "setValidating this b w = upd_field this (\<lambda>f. f\<lparr>validating := b\<rparr>) w"

text \<open>
  The binding slots are JavaScript arrays: \<open>[]\<close>, \<open>[handle]\<close> or \<open>[handle, props]\<close>. An absent
  argument is \<open>undefined\<close>. The methods write into the array that the slot refers to, in
  place: every Field whose slot holds the same address sees the write. An index into an unset
  slot raises TypeError.
\<close>

definition write_array :: "aref \<Rightarrow> nat \<Rightarrow> val \<Rightarrow> world \<Rightarrow> world" where
  "write_array a i v w = w\<lparr>arrays := (arrays w)(a := js_assign (arrays w a) i v)\<rparr>"



definition setDecorator :: "ref \<Rightarrow> val \<Rightarrow> val \<Rightarrow> world \<Rightarrow> fault + world" where
  "setDecorator this c ps w =
     (case decorator (heap w this) of
        None \<Rightarrow> (if truthy c \<or> truthy ps then Inl TypeError else Inr w)
      | Some a \<Rightarrow>
          (let w1 = (if truthy c then write_array a 0 c w else w)
           in Inr (if truthy ps then write_array a 1 ps w1 else w1)))"


subsection \<open>Validation\<close>

text \<open>
  \<open>validate\<close> is asynchronous. \<open>validate_begin\<close> is the part that runs at the call, up to the
  \<open>await\<close> on the external engine: it yields the state it leaves and, when a step of it
  raises, the fault with which the promise rejects (the caller of an un-awaited
  \<open>validate\<close> never sees that fault). \<open>validate_resume\<close> is the continuation, run on the
  result sequence that the engine returned. \<open>validate\<close> is one call with no other code
  running between the two parts; the engine's answer is a parameter.
\<close>

record validate_result =
  errors :: "val list"
  warnings :: "val list"
  successes :: "val list"

definition validate_begin :: "ref \<Rightarrow> world \<Rightarrow> world \<times> fault option" where
  "validate_begin this w =
     (let w1 = setValidating this True w in
      case form (heap w1 this) of
        None \<Rightarrow> (w1, Some TypeError)
      | Some F \<Rightarrow>
          (let w2 = notify ON_FIELD_VALIDATE_START (FieldPayload this) w1 in
           case get_value this w2 of
             Inl e \<Rightarrow> (w2, Some e)
           | Inr v \<Rightarrow> (w2, None)))"

text \<open>The body of \<open>results.forEach\<close>, on the three lists \<open>errors\<close>, \<open>warnings\<close>, \<open>successes\<close>.\<close>

definition collect ::
  "feedback_type \<times> val \<Rightarrow> val list \<times> val list \<times> val list \<Rightarrow> val list \<times> val list \<times> val list" where
  "collect r acc =
     (case r of (type, message) \<Rightarrow>
       (case acc of (es, ws, ss) \<Rightarrow>
          (let es1 = (if type = error then es @ [message] else es);
               ws1 = (if type = warning then ws @ [message] else ws);
               ws2 = (if type = success then ws1 @ [message] else ws1)
           in (es1, ws2, ss))))"

text \<open>\<open>if (messages.length) this.form.feedback.update({type, code, path: this.path, messages})\<close>.\<close>

definition feedback_push ::
  "ref \<Rightarrow> feedback_type \<Rightarrow> feedback_code \<Rightarrow> val list \<Rightarrow> world \<Rightarrow> fault + world" where
  "feedback_push this t c msgs w =
     (if msgs = [] then Inr w
      else case form (heap w this) of
             None \<Rightarrow> Inl TypeError
           | Some F \<Rightarrow>
               (case path (heap w this) of
                  None \<Rightarrow> Inl Unmodelled
                | Some p \<Rightarrow>
                    Inr (feedback_update
                          \<lparr>entry_type = t, entry_code = c, entry_path = p, entry_messages = msgs\<rparr>
                          w)))"

definition validate_resume ::
  "ref \<Rightarrow> (feedback_type \<times> val) list \<Rightarrow> world \<Rightarrow> fault + validate_result \<times> world" where
  "validate_resume this results w =
     (case fold collect results ([], [], []) of (es, ws, ss) \<Rightarrow>
       (case feedback_push this error ValidateError es w of
          Inl e \<Rightarrow> Inl e
        | Inr w1 \<Rightarrow>
           (case feedback_push this warning ValidateWarning ws w1 of
              Inl e \<Rightarrow> Inl e
            | Inr w2 \<Rightarrow>
               (case feedback_push this success ValidateSuccess ss w2 of
                  Inl e \<Rightarrow> Inl e
                | Inr w3 \<Rightarrow>
                   (let w4 = setValidating this False w3 in
                    case form (heap w4 this) of
                      None \<Rightarrow> Inl TypeError
                    | Some F \<Rightarrow>
                        Inr (\<lparr>errors = es, warnings = ws, successes = ss\<rparr>,
                             notify ON_FIELD_VALIDATE_END (FieldPayload this) w4))))))"

definition validate ::
  "ref \<Rightarrow> string option \<Rightarrow> (feedback_type \<times> val) list \<Rightarrow> world
     \<Rightarrow> fault + validate_result \<times> world" where
  "validate this triggerType results w =
     (case validate_begin this w of
        (w1, Some e) \<Rightarrow> Inl e
      | (w1, None) \<Rightarrow> validate_resume this results w1)"

subsection \<open>Lifecycle operations\<close>

text \<open>
  The lifecycle operations call \<open>validate\<close> without awaiting it: what they leave is the state
  after \<open>validate_begin\<close>. \<open>onUnmount\<close> reads \<open>computedDisplay\<close>, whose walk may not return:
  \<open>None\<close> is the call that never returns.
\<close>

definition onUnmount :: "ref \<Rightarrow> world \<Rightarrow> (fault + world) option" where
  "onUnmount this w =
     (let w1 = upd_field this (\<lambda>f. f\<lparr>mounted := False, unmounted := True\<rparr>) w;
          w2 = fst (validate_begin this w1)
      in case form (heap w2 this) of
           None \<Rightarrow> Some (Inl TypeError)
         | Some F \<Rightarrow>
             (let w3 = notify ON_FIELD_UNMOUNT (FieldPayload this) w2 in
              case path (heap w3 this) of
                None \<Rightarrow> Some (Inl Unmodelled)
              | Some p \<Rightarrow>
                  if existIn w3 p then
                    (case get_computedDisplay this w3 of
                       None \<Rightarrow> None
                     | Some (Inl e) \<Rightarrow> Some (Inl e)
                     | Some (Inr d) \<Rightarrow>
                         if d = Some none \<or> d = Some visibility
                         then Some (setValue this Undefined w3)
                         else Some (Inr w3))
                  else Some (Inr (w3\<lparr>form_fields := (form_fields w3)(toString p := None)\<rparr>))))"

definition onInput :: "ref \<Rightarrow> val list \<Rightarrow> world \<Rightarrow> fault + world" where
  "onInput this args w =
     (if void (heap w this) then Inr w
      else
        (let w1 = upd_field this
                    (\<lambda>f. f\<lparr>inputValue := js_index args 0, inputValues := args, modified := True\<rparr>) w
         in case form (heap w1 this) of
              None \<Rightarrow> Inl TypeError
            | Some F \<Rightarrow>
                (let w2 = w1\<lparr>form_modified := True\<rparr> in
                 case path (heap w2 this) of
                   None \<Rightarrow> Inl Unmodelled
                 | Some p \<Rightarrow>
                     (case get_value this w2 of
                        Inl e \<Rightarrow> Inl e
                      | Inr v \<Rightarrow>
                          Inr (fst (validate_begin this
                            (notify ON_FORM_INPUT_CHANGE FormPayload
                              (notify ON_FORM_VALUES_CHANGE FormPayload
                                (notify ON_FIELD_INPUT_CHANGE (FieldPayload this)
                                  (notify ON_FIELD_VALUE_CHANGE (FieldPayload this)
                                    (setValuesIn p v w2)))))))))))"

subsection \<open>Construction\<close>

text \<open>
  \<open>Field.defaultProps\<close> is one static object: its \<open>decorator\<close> and its \<open>component\<close> are two
  arrays that exist once, at the addresses \<open>defaultProps_decorator\<close> and
  \<open>defaultProps_component\<close>. The merge \<open>{...Field.defaultProps, ...props}\<close> (\<open>merge_props\<close>)
  copies the members, not the arrays: where \<open>props\<close> lacks the key, the merged props refer
  to the static array itself.
\<close>

definition defaultProps_decorator :: aref where
  "defaultProps_decorator = 0"

definition defaultProps_component :: aref where
  "defaultProps_component = 1"

definition merge_props :: "IFieldProps \<Rightarrow> IFieldProps" where
  "merge_props ps =
     ps\<lparr>props_void := Some (case props_void ps of None \<Rightarrow> False | Some b \<Rightarrow> b),
        props_decorator :=
          Some (case props_decorator ps of None \<Rightarrow> defaultProps_decorator | Some a \<Rightarrow> a),
        props_component :=
          Some (case props_component ps of None \<Rightarrow> defaultProps_component | Some a \<Rightarrow> a)\<rparr>"

text \<open>
  \<open>initialize(props)\<close> on the object \<open>f\<close>. No statement of it writes \<open>form\<close>, \<open>path\<close>,
  \<open>inputValue\<close> or \<open>recycledValue\<close>.
\<close>

definition initialize :: "IFieldProps \<Rightarrow> field \<Rightarrow> field" where
  "initialize ps f =
     (let merged = merge_props ps in
      f\<lparr>props := merged,
        initialized := False,
        loading := False,
        validating := False,
        modified := False,
        active := False,
        visited := False,
        mounted := False,
        unmounted := False,
        void := (case props_void merged of None \<Rightarrow> False | Some b \<Rightarrow> b),
        display := props_display merged,
        pattern := props_pattern merged,
        validator := props_validator merged,
        decorator := props_decorator merged,
        component := props_component merged,
        inputValues := []\<rparr>)"

text \<open>
  \<open>makeObservable()\<close> hands the Observable Primitive (MobX 6, outside the sources) the
  annotation map of lines 394 to 433, here in its order. The Observable Primitive refuses the
  annotation \<open>observable\<close> on a member that the class defines by a getter, and raises. The
  members that \<open>Field\<close> defines by \<open>get\<close> are listed in \<open>getters\<close>; \<open>value\<close> and \<open>initialValue\<close>
  are among the members annotated \<open>observable\<close>.
\<close>

datatype annotation = observable | action

definition annotations :: "(string \<times> annotation) list" where
  "annotations =
     [(''void'', observable), (''display'', observable), (''pattern'', observable),
      (''loading'', observable), (''validating'', observable), (''modified'', observable),
      (''active'', observable), (''visited'', observable), (''value'', observable),
      (''inputValue'', observable), (''inputValues'', observable),
      (''recycledValue'', observable), (''initialValue'', observable),
      (''initialized'', observable), (''mounted'', observable), (''unmounted'', observable),
      (''validator'', observable), (''decorator'', observable), (''component'', observable),
      (''setDisplay'', action), (''setValue'', action), (''setPattern'', action),
      (''setInitialValue'', action), (''setLoading'', action), (''setValidating'', action),
      (''setErrors'', action), (''setWarnings'', action), (''setValidator'', action),
      (''setRequired'', action), (''setComponent'', action), (''setComponentProps'', action),
      (''setDecorator'', action), (''setDecoratorProps'', action), (''onInput'', action),
      (''onMount'', action), (''onUnmount'', action), (''onFocus'', action),
      (''onBlur'', action)]"

definition getters :: "string list" where
  "getters =
     [''parent'', ''array'', ''key'', ''index'', ''errors'', ''warnings'', ''successes'',
      ''value'', ''initialValue'', ''computedDisplay'', ''computedPattern'', ''required'']"

definition makeObservable :: "ref \<Rightarrow> world \<Rightarrow> fault + world" where
  "makeObservable this w =
     (if list_ex (\<lambda>(name, a). a = observable \<and> name \<in> set getters) annotations
      then Inl MobXError
      else Inr w)"

text \<open>
  The object that \<open>new\<close> allocates before the constructor body runs: no slot is set. A Form
  that binds an object sets its \<open>form\<close> and \<open>path\<close> slots (\<open>bind\<close>).
\<close>

definition blank :: field where
  "blank =
     \<lparr>void = False, display = None, pattern = None, loading = False, validating = False,
      modified = False, active = False, visited = False, inputValue = Undefined,
      inputValues = [], recycledValue = Undefined, initialized = False, mounted = False,
      unmounted = False, validator = NoValidator, decorator = None, component = None,
      form = None, path = None,
      props = \<lparr>props_value = Undefined, props_initialValue = Undefined, props_void = None,
               props_display = None, props_pattern = None, props_validator = NoValidator,
               props_decorator = None, props_component = None\<rparr>\<rparr>"

definition bind :: "path \<Rightarrow> field \<Rightarrow> field" where
  "bind p f = f\<lparr>form := Some TheForm, path := Some p\<rparr>"

text \<open>
  \<open>new Field(props)\<close>, the new object being at address \<open>this\<close>: the object is allocated, then
  the four statements of the constructor body run on it in their order.
\<close>

definition "constructor" :: "ref \<Rightarrow> IFieldProps \<Rightarrow> world \<Rightarrow> fault + world" where
  "constructor this ps w =
     (let w1 = upd_field this (initialize ps) (upd_field this (\<lambda>f. blank) w) in
      case makeObservable this w1 of
        Inl e \<Rightarrow> Inl e
      | Inr w2 \<Rightarrow>
          (case setValue this (props_value ps) w2 of
             Inl e \<Rightarrow> Inl e
           | Inr w3 \<Rightarrow> setInitialValue this (props_initialValue ps) w3))"

definition empty_world :: world where
  "empty_world =
     \<lparr>heap = (\<lambda>r. blank), arrays = (\<lambda>a. []), form_fields = Map.empty, values = Map.empty,
      initialValues = Map.empty, feedback = [], form_modified = False, notified = []\<rparr>"

subsection \<open>Concrete states\<close>

text \<open>Running one call after another, stopping at the first fault.\<close>

definition and_then :: "fault + 'a \<Rightarrow> ('a \<Rightarrow> fault + 'b) \<Rightarrow> fault + 'b" where
  "and_then r k = (case r of Inl e \<Rightarrow> Inl e | Inr x \<Rightarrow> k x)"

text \<open>
  The Path \<open>user.name\<close>, and the state in which the object at address 0 has been allocated
  and bound to the Form at that Path, nothing else having happened.
\<close>

definition user_name :: path where
  "user_name = [''user'', ''name'']"

definition allocated :: world where
  "allocated = empty_world\<lparr>heap := (heap empty_world)(0 := bind user_name blank)\<rparr>"

definition no_props :: IFieldProps where
  "no_props =
     \<lparr>props_value = Undefined, props_initialValue = Undefined, props_void = None,
      props_display = None, props_pattern = None, props_validator = NoValidator,
      props_decorator = None, props_component = None\<rparr>"

text \<open>The props \<open>{value: "Al", initialValue: "Alice"}\<close>.\<close>

definition scenario_props :: IFieldProps where
  "scenario_props = no_props\<lparr>props_value := Str ''Al'', props_initialValue := Str ''Alice''\<rparr>"

text \<open>The Field at \<open>user.name\<close> registered under its identifier, the registry holding no other Field.\<close>

definition registered :: world where
  "registered = allocated\<lparr>form_fields := [toString user_name \<mapsto> 0]\<rparr>"

text \<open>
  Three registered Fields, at \<open>a\<close> (address 10, display \<open>none\<close>, pattern \<open>disabled\<close>), at
  \<open>a.b\<close> (address 11, no display and no pattern of its own) and at \<open>a.b.c\<close> (address 12, none
  either).
\<close>

definition family :: world where
  "family =
     empty_world\<lparr>heap := (heap empty_world)
         (10 := (bind [''a''] blank)\<lparr>display := Some none, pattern := Some disabled\<rparr>,
          11 := bind [''a'', ''b''] blank,
          12 := bind [''a'', ''b'', ''c''] blank),
       form_fields := [''a'' \<mapsto> 10, ''a.b'' \<mapsto> 11, ''a.b.c'' \<mapsto> 12]\<rparr>"

text \<open>
  A void Field at \<open>user.name\<close> with display \<open>none\<close>, the values tree holding \<open>"x"\<close> at its Path;
  and the same Field not void.
\<close>

definition void_display_none :: world where
  "void_display_none =
     empty_world\<lparr>heap := (heap empty_world)
         (0 := (bind user_name blank)\<lparr>void := True, display := Some none\<rparr>),
       form_fields := [toString user_name \<mapsto> 0],
       values := [user_name \<mapsto> Str ''x'']\<rparr>"

definition display_none :: world where
  "display_none =
     empty_world\<lparr>heap := (heap empty_world)
         (0 := (bind user_name blank)\<lparr>display := Some none\<rparr>),
       form_fields := [toString user_name \<mapsto> 0],
       values := [user_name \<mapsto> Str ''x'']\<rparr>"

text \<open>
  The Field of the scenario, at \<open>user.name\<close> with value \<open>"Al"\<close> and initialValue \<open>"Alice"\<close>: the
  state that \<open>initialize\<close>, \<open>setValue\<close> and \<open>setInitialValue\<close> leave when they run, with the props
  \<open>{value: "Al", initialValue: "Alice"}\<close>, on the object at address 0 of \<open>allocated\<close>.
\<close>

definition created :: world where
  "created =
     notify ON_FORM_INITIAL_VALUES_CHANGE FormPayload
       (notify ON_FIELD_INITIAL_VALUE_CHANGE (FieldPayload 0)
         (setInitialValuesIn user_name (Str ''Alice'')
           (notify ON_FORM_VALUES_CHANGE FormPayload
             (notify ON_FIELD_VALUE_CHANGE (FieldPayload 0)
               (setValuesIn user_name (Str ''Al'')
                 (upd_field 0 (initialize scenario_props) allocated))))))"

text \<open>What an observer reads of a Field: its value, inputValue, modified and the Form's modified.\<close>

definition readings :: "ref \<Rightarrow> world \<Rightarrow> fault + val \<times> val \<times> bool \<times> bool" where
  "readings this w =
     and_then (get_value this w)
       (\<lambda>v. Inr (v, inputValue (heap w this), modified (heap w this), form_modified w))"

text \<open>
  The state \<open>onUnmount\<close> has reached, on a Field with a Form, when it tests whether the Path
  exists: the two flags written, validation begun, the unmount notification sent.
\<close>

definition unmounting :: "ref \<Rightarrow> world \<Rightarrow> world" where
  "unmounting this w =
     notify ON_FIELD_UNMOUNT (FieldPayload this)
       (notify ON_FIELD_VALIDATE_START (FieldPayload this)
         (setValidating this True
           (upd_field this (\<lambda>f. f\<lparr>mounted := False, unmounted := True\<rparr>) w)))"





text \<open>
  The rule-descriptions \<open>{format: "email"}\<close>, which has no \<open>required\<close> key, and
  \<open>{required: true}\<close>.
\<close>

definition email_rule :: description where
  "email_rule = \<lparr>required = None, rules = [(''format'', Str ''email'')]\<rparr>"

definition required_rule :: description where
  "required_rule = \<lparr>required = Some True, rules = []\<rparr>"

section \<open>Properties\<close>

lemmas store_defs = notify_def setValuesIn_def setInitialValuesIn_def getValuesIn_def
  getInitialValuesIn_def upd_field_def setValidating_def existIn_def

lemmas example_defs = allocated_def empty_world_def blank_def bind_def user_name_def no_props_def
  scenario_props_def and_then_def

subsection \<open>Reading a bound Field\<close>

lemma get_value_bound:
  assumes "form (heap w this) = Some F" and "path (heap w this) = Some p"
  shows "get_value this w =
           Inr (if modified (heap w this) \<or> isValid (getValuesIn p w) then getValuesIn p w
                else getInitialValuesIn p w)"
  using assms by (simp add: get_value_def get_initialValue_def Let_def)

lemma validate_begin_bound:
  assumes "form (heap w this) = Some F" and "path (heap w this) = Some p"
  shows "validate_begin this w =
           (notify ON_FIELD_VALIDATE_START (FieldPayload this) (setValidating this True w), None)"
  using assms
  by (auto simp: validate_begin_def get_value_def get_initialValue_def Let_def store_defs
           split: sum.splits)

lemma scenario_setup:
  "and_then (setValue 0 (Str ''Al'') (upd_field 0 (initialize scenario_props) allocated))
     (setInitialValue 0 (Str ''Alice'')) = Inr created"
  by (simp add: setValue_def setInitialValue_def created_def initialize_def merge_props_def
      Let_def store_defs example_defs)

lemma created_facts:
  "form (heap created 0) = Some TheForm" "path (heap created 0) = Some user_name"
  "\<not> void (heap created 0)" "\<not> modified (heap created 0)"
  "values created = [user_name \<mapsto> Str ''Al'']"
  "initialValues created = [user_name \<mapsto> Str ''Alice'']"
  by (simp_all add: created_def initialize_def merge_props_def Let_def store_defs example_defs)

lemma allocated_facts:
  "form (heap allocated 0) = Some TheForm" "path (heap allocated 0) = Some user_name"
  "\<not> existIn allocated user_name" "form_fields allocated = Map.empty"
  "component (heap allocated 0) = None" "decorator (heap allocated 0) = None"
  "values allocated = Map.empty" "initialValues allocated = Map.empty"
  "inputValue (heap allocated 0) = Undefined"
  by (simp_all add: example_defs existIn_def)

lemma void_display_none_facts:
  "form (heap void_display_none 0) = Some TheForm"
  "path (heap void_display_none 0) = Some user_name"
  "void (heap void_display_none 0)" "existIn void_display_none user_name"
  "get_computedDisplay 0 void_display_none = Some (Inr (Some none))"
  "values void_display_none = [user_name \<mapsto> Str ''x'']"
  by (simp_all add: void_display_none_def example_defs existIn_def get_computedDisplay_def)

lemma display_none_facts:
  "form (heap display_none 0) = Some TheForm" "path (heap display_none 0) = Some user_name"
  "\<not> void (heap display_none 0)" "existIn display_none user_name"
  "get_computedDisplay 0 display_none = Some (Inr (Some none))"
  "values display_none = [user_name \<mapsto> Str ''x'']"
  "form_fields display_none = [toString user_name \<mapsto> 0]"
  by (simp_all add: display_none_def example_defs existIn_def get_computedDisplay_def)

subsection \<open>onInput\<close>

text \<open>
  On a Field that is not void and has its Form and Path, \<open>onInput\<close> records its first argument
  and sets both \<open>modified\<close> flags. The value it writes into the values tree is \<open>this.value\<close>,
  read after \<open>modified\<close> was set: the value that the tree already holds at the Path. The
  arguments never reach the tree.
\<close>

lemma onInput_keeps_stored:
  assumes "form (heap w this) = Some F" and "path (heap w this) = Some p"
    and "\<not> void (heap w this)"
  shows "\<exists>w'. onInput this args w = Inr w' \<and>
           inputValue (heap w' this) = js_index args 0 \<and>
           inputValues (heap w' this) = args \<and>
           modified (heap w' this) \<and> form_modified w' \<and>
           get_value this w' = Inr (getValuesIn p w)"
  using assms
  by (simp add: onInput_def validate_begin_def get_value_def get_initialValue_def store_defs
      Let_def)

text \<open>
  C1. The scenario of the specification: the Field at \<open>user.name\<close> is given the value
  \<open>"Al"\<close> and the initialValue \<open>"Alice"\<close> by the statements that construction runs on the props,
  then receives \<open>onInput("Bob")\<close>. After the call
  \<open>inputValue\<close> is \<open>"Bob"\<close> and both \<open>modified\<close> flags are true, and the value of the Field is
  still \<open>"Al"\<close>, not \<open>"Bob"\<close>.
\<close>

theorem onInput_scenario_keeps_old_value:
  "and_then (setValue 0 (Str ''Al'') (upd_field 0 (initialize scenario_props) allocated))
     (setInitialValue 0 (Str ''Alice'')) = Inr created \<and>
   and_then (onInput 0 [Str ''Bob''] created) (readings 0)
     = Inr (Str ''Al'', Str ''Bob'', True, True)"
proof -
  have "and_then (onInput 0 [Str ''Bob''] created) (readings 0)
          = Inr (Str ''Al'', Str ''Bob'', True, True)"
    by (simp add: readings_def onInput_def validate_begin_def get_value_def
        get_initialValue_def created_def initialize_def merge_props_def Let_def store_defs
            example_defs
        js_index_def isValid_def)
  with scenario_setup show ?thesis by simp
qed

subsection \<open>setValue and the value getter\<close>

text \<open>
  C2, as stated, fails: on the Field just created with initialValue \<open>"Alice"\<close>, which is not
  void and not modified, \<open>setValue(undefined)\<close> is followed by the value \<open>"Alice"\<close>, not
  \<open>undefined\<close>.
\<close>

theorem setValue_undefined_reads_initialValue:
  "void (heap created 0) = False \<and> modified (heap created 0) = False \<and>
   and_then (setValue 0 Undefined created) (get_value 0) = Inr (Str ''Alice'')"
  by (simp add: setValue_def get_value_def get_initialValue_def created_def initialize_def
      merge_props_def Let_def
      store_defs example_defs isValid_def)

text \<open>
  C2, amended. For a Field with its Form and Path: if the Field is not void, \<open>setValue(v)\<close>
  stores \<open>v\<close> at the Path, and the value read next is \<open>v\<close> when the Field is modified or \<open>v\<close> is
  valid, and the Field's initialValue when the Field is unmodified and \<open>v\<close> is \<open>undefined\<close> or
  \<open>null\<close>; if the Field is void, the call leaves the state, the values tree included, as it was.
\<close>

theorem setValue_then_value:
  assumes "form (heap w this) = Some F" and "path (heap w this) = Some p"
  shows "(\<not> void (heap w this) \<longrightarrow>
            (\<exists>w'. setValue this v w = Inr w' \<and> values w' p = Some v \<and>
                  get_value this w' =
                    Inr (if modified (heap w this) \<or> isValid v then v
                         else getInitialValuesIn p w)))
       \<and> (void (heap w this) \<longrightarrow> setValue this v w = Inr w)"
  using assms
  by (simp add: setValue_def get_value_def get_initialValue_def store_defs)

theorem setValue_then_value_witness:
  "(\<exists>w'. setValue 0 (Str ''Bob'') created = Inr w' \<and>
         values w' user_name = Some (Str ''Bob'') \<and> get_value 0 w' = Inr (Str ''Bob''))
 \<and> (\<exists>w'. setValue 0 Null created = Inr w' \<and>
         values w' user_name = Some Null \<and> get_value 0 w' = Inr (Str ''Alice''))
 \<and> setValue 0 (Str ''Bob'') void_display_none = Inr void_display_none"
  using setValue_then_value[OF created_facts(1,2), of "Str ''Bob''"]
    setValue_then_value[OF created_facts(1,2), of Null]
    setValue_then_value[OF void_display_none_facts(1,2), of "Str ''Bob''"]
  by (simp add: created_facts void_display_none_facts isValid_def getInitialValuesIn_def)

subsection \<open>validate\<close>

lemma fold_collect:
  "fold collect results (es, ws, ss) =
     (es @ map snd (filter (\<lambda>r. fst r = error) results),
      ws @ map snd (filter (\<lambda>r. fst r = warning \<or> fst r = success) results),
      ss)"
  by (induction results arbitrary: es ws) (auto simp: collect_def)

lemma feedback_update_keeps:
  "entry_code e \<noteq> ValidateSuccess \<Longrightarrow>
   filter (\<lambda>x. entry_code x = ValidateSuccess) (feedback (feedback_update e w)) =
   filter (\<lambda>x. entry_code x = ValidateSuccess) (feedback w)"
  by (auto simp: feedback_update_def Let_def intro!: filter_cong)

lemma feedback_push_keeps:
  assumes "feedback_push this t c msgs w = Inr w'" and "c \<noteq> ValidateSuccess"
  shows "filter (\<lambda>x. entry_code x = ValidateSuccess) (feedback w') =
         filter (\<lambda>x. entry_code x = ValidateSuccess) (feedback w)"
  using assms
  by (auto simp: feedback_push_def feedback_update_keeps split: if_splits option.splits)

lemma feedback_push_heap:
  "feedback_push this t c msgs w = Inr w' \<Longrightarrow> heap w' = heap w"
  by (auto simp: feedback_push_def feedback_update_def Let_def split: if_splits option.splits)

lemma feedback_push_bound:
  "form (heap w this) = Some F \<Longrightarrow> path (heap w this) = Some p \<Longrightarrow>
   \<exists>w'. feedback_push this t c msgs w = Inr w'"
  by (simp add: feedback_push_def)

text \<open>
  C3. For a Field with its Form and Path and every result sequence of the engine,
  \<open>validate\<close> returns: \<open>errors\<close> is the messages of the results of type \<open>error\<close>, \<open>warnings\<close> is
  the messages of the results of type \<open>warning\<close> or \<open>success\<close> in their order, \<open>successes\<close> is
  empty. The returned lists are a function of the result sequence alone, and the entries of
  the Feedback Store with code \<open>ValidateSuccess\<close> are after the call what they were before.
\<close>

theorem validate_partition:
  assumes "form (heap w this) = Some F" and "path (heap w this) = Some p"
  shows "\<exists>w'. validate this triggerType results w =
           Inr (\<lparr>errors = map snd (filter (\<lambda>r. fst r = error) results),
                 warnings = map snd (filter (\<lambda>r. fst r = warning \<or> fst r = success) results),
                 successes = []\<rparr>, w')
         \<and> filter (\<lambda>x. entry_code x = ValidateSuccess) (feedback w') =
           filter (\<lambda>x. entry_code x = ValidateSuccess) (feedback w)"
proof -
  define w0 where
    "w0 = notify ON_FIELD_VALIDATE_START (FieldPayload this) (setValidating this True w)"
  have b0: "form (heap w0 this) = Some F" "path (heap w0 this) = Some p"
    and f0: "feedback w0 = feedback w"
    using assms by (simp_all add: w0_def store_defs)
  define es where "es = map snd (filter (\<lambda>r. fst r = error) results)"
  define ws where "ws = map snd (filter (\<lambda>r. fst r = warning \<or> fst r = success) results)"
  obtain w1 where w1: "feedback_push this error ValidateError es w0 = Inr w1"
    using feedback_push_bound[OF b0] by blast
  have b1: "form (heap w1 this) = Some F" "path (heap w1 this) = Some p"
    using feedback_push_heap[OF w1] b0 by simp_all
  obtain w2 where w2: "feedback_push this warning ValidateWarning ws w1 = Inr w2"
    using feedback_push_bound[OF b1] by blast
  have b2: "form (heap w2 this) = Some F"
    using feedback_push_heap[OF w2] b1 by simp
  have w3: "feedback_push this success ValidateSuccess [] w2 = Inr w2"
    by (simp add: feedback_push_def)
  have kept: "filter (\<lambda>x. entry_code x = ValidateSuccess) (feedback w2) =
              filter (\<lambda>x. entry_code x = ValidateSuccess) (feedback w)"
    using feedback_push_keeps[OF w1] feedback_push_keeps[OF w2] f0 by simp
  have b4: "form (heap (setValidating this False w2) this) = Some F"
    using b2 by (simp add: store_defs)
  have "validate this triggerType results w =
          Inr (\<lparr>errors = es, warnings = ws, successes = []\<rparr>,
               notify ON_FIELD_VALIDATE_END (FieldPayload this) (setValidating this False w2))"
    using b4 w1 w2 w3
    by (simp add: validate_def validate_begin_bound[OF assms] validate_resume_def
          fold_collect w0_def[symmetric] es_def[symmetric] ws_def[symmetric])
  moreover have
    "feedback (notify ON_FIELD_VALIDATE_END (FieldPayload this) (setValidating this False w2))
       = feedback w2"
    by (simp add: store_defs)
  ultimately show ?thesis
    using kept by (simp add: es_def ws_def)
qed

theorem validate_partition_witness:
  "\<exists>w'. validate 0 (Some ''onInput'')
          [(error, Str ''too short''), (success, Str ''ok''), (warning, Str ''weak'')] created =
        Inr (\<lparr>errors = [Str ''too short''], warnings = [Str ''ok'', Str ''weak''],
              successes = []\<rparr>, w')
      \<and> filter (\<lambda>x. entry_code x = ValidateSuccess) (feedback w') = []"
proof -
  have "feedback created = []"
    by (simp add: created_def store_defs example_defs)
  with validate_partition[OF created_facts(1,2), of "Some ''onInput''"
      "[(error, Str ''too short''), (success, Str ''ok''), (warning, Str ''weak'')]"]
  show ?thesis by simp
qed

subsection \<open>setRequired and the required getter\<close>

text \<open>
  Every array is an object for \<open>isObj\<close>, which \<open>setRequired\<close> asks first: on an array-shaped
  description the arms under \<open>isArr\<close> are never taken.
\<close>

lemma isArr_isObj: "isArr v \<Longrightarrow> isObj v"
  by (cases v) simp_all

lemma setRequired_assigns:
  "setRequired this req w =
     (if isObj (validator (heap w this))
      then upd_field this (\<lambda>f. f\<lparr>validator := assign_required req (validator (heap w this))\<rparr>) w
      else w)"
  by (cases "validator (heap w this)") (simp_all add: setRequired_def Let_def)

text \<open>
  What holds of \<open>setRequired\<close>: on an object-shaped description \<open>required\<close> is afterwards the
  argument of the call; on an array-shaped description the call writes the array's own
  property and \<open>required\<close> is afterwards what it was before.
\<close>

lemma setRequired_object:
  assumes "validator (heap w this) = ObjectValidator d"
  shows "get_required this (setRequired this req w) = req"
  using assms by (simp add: setRequired_assigns get_required_def upd_field_def)

lemma setRequired_array:
  assumes "validator (heap w this) = ArrayValidator ds own"
  shows "validator (heap (setRequired this req w) this) = ArrayValidator ds (Some req)"
    and "get_required this (setRequired this req w) = get_required this w"
  using assms by (simp_all add: setRequired_assigns get_required_def upd_field_def)

text \<open>
  C4. On the Field whose validator is the array-shaped description \<open>[{format: "email"}]\<close>:
  \<open>required\<close> is false, \<open>setRequired(true)\<close> leaves the elements as they are and \<open>required\<close> is
  still false. On the Field whose validator is \<open>[{required: true}]\<close>, \<open>setRequired(false)\<close>
  leaves the element as it is and \<open>required\<close> is still true.
\<close>

theorem setRequired_on_array_changes_nothing:
  "\<not> get_required 0 (setValidator 0 (ArrayValidator [email_rule] None) allocated) \<and>
   validator (heap (setRequired 0 True
       (setValidator 0 (ArrayValidator [email_rule] None) allocated)) 0)
     = ArrayValidator [email_rule] (Some True) \<and>
   \<not> get_required 0 (setRequired 0 True
       (setValidator 0 (ArrayValidator [email_rule] None) allocated)) \<and>
   validator (heap (setRequired 0 False
       (setValidator 0 (ArrayValidator [required_rule] None) allocated)) 0)
     = ArrayValidator [required_rule] (Some False) \<and>
   get_required 0 (setRequired 0 False
       (setValidator 0 (ArrayValidator [required_rule] None) allocated))"
  by (simp add: setRequired_def get_required_def setValidator_def upd_field_def email_rule_def
      required_rule_def Let_def)

subsection \<open>Construction\<close>

text \<open>
  \<open>makeObservable\<close> raises on every Field, whatever the state: the annotation map annotates
  the getter \<open>value\<close> as \<open>observable\<close>. So does the constructor, for every props object.
\<close>

lemma makeObservable_raises: "makeObservable this w = Inl MobXError"
  by (simp add: makeObservable_def annotations_def getters_def)

lemma constructor_raises: "constructor this ps w = Inl MobXError"
  by (simp add: constructor_def Let_def makeObservable_raises)

text \<open>
  The statements after \<open>makeObservable\<close> would not complete either: the object that \<open>new\<close>
  allocates has no \<open>form\<close>, no statement of the constructor sets one, and \<open>setValue\<close> on it
  raises TypeError at \<open>this.form.setValuesIn\<close> unless the props are void.
\<close>

lemma setValue_on_new_object:
  assumes "props_void ps \<noteq> Some True"
  shows "setValue this v (upd_field this (initialize ps) (upd_field this (\<lambda>f. blank) w))
           = Inl TypeError"
  using assms
  by (auto simp: setValue_def initialize_def merge_props_def Let_def upd_field_def blank_def
      split: option.splits)

text \<open>
  On an object that has a Form and a Path, \<open>initialize\<close>, \<open>setValue\<close> and
  \<open>setInitialValue\<close> set the flags to false and write the trees as the specification has it
  of construction, a void Field leaving the trees as they were.
\<close>

lemma initialize_then_set:
  assumes "form (heap w this) = Some F" and "path (heap w this) = Some p"
  shows "\<exists>w'. and_then (setValue this (props_value ps) (upd_field this (initialize ps) w))
                 (setInitialValue this (props_initialValue ps)) = Inr w' \<and>
           \<not> initialized (heap w' this) \<and> \<not> loading (heap w' this) \<and>
           \<not> validating (heap w' this) \<and> \<not> modified (heap w' this) \<and>
           \<not> active (heap w' this) \<and> \<not> visited (heap w' this) \<and>
           \<not> mounted (heap w' this) \<and> \<not> unmounted (heap w' this) \<and>
           inputValues (heap w' this) = [] \<and>
           (if props_void ps = Some True
            then values w' = values w \<and> initialValues w' = initialValues w
            else values w' p = Some (props_value ps) \<and>
                 initialValues w' p = Some (props_initialValue ps))"
  using assms
  by (auto simp add: and_then_def initialize_def merge_props_def Let_def setValue_def
      setInitialValue_def store_defs split: option.splits)

text \<open>
  C5. \<open>new Field({value: "Al", initialValue: "Alice"})\<close> does not complete: the call of
  \<open>makeObservable\<close> raises, after \<open>initialize\<close> and before any tree is written; and
  \<open>setValue\<close>, the statement that would write the values tree, raises TypeError on the object
  as \<open>initialize\<close> leaves it.
\<close>

theorem constructor_scenario_raises:
  "constructor 0 scenario_props empty_world = Inl MobXError \<and>
   makeObservable 0 (upd_field 0 (initialize scenario_props) empty_world) = Inl MobXError \<and>
   form (initialize scenario_props blank) = None \<and>
   setValue 0 (props_value scenario_props)
     (upd_field 0 (initialize scenario_props) empty_world) = Inl TypeError"
  by (simp add: constructor_def makeObservable_def annotations_def getters_def
      setValue_def initialize_def merge_props_def Let_def upd_field_def empty_world_def
      blank_def scenario_props_def no_props_def)

subsection \<open>The parent getter\<close>

lemma parent_walk_registered:
  "reg (toString p) = Some r \<Longrightarrow> parent_walk reg p = Some r"
  by (subst parent_walk.simps) simp

lemma parent_walk_step:
  "reg (toString p) = None \<Longrightarrow> parent_walk reg p = parent_walk reg (parent_path p)"
  by (subst parent_walk.simps) simp

text \<open>A walk that returns has found its result in the registry, at an ancestor's identifier.\<close>

lemma parent_walk_Some:
  assumes "parent_walk reg p = Some r"
  shows "\<exists>n. reg (toString ((parent_path ^^ n) p)) = Some r"
proof (rule parent_walk.raw_induct
    [where P = "\<lambda>reg p r. \<exists>n. reg (toString ((parent_path ^^ n) p)) = Some r", OF _ assms])
  fix walk :: "(string \<rightharpoonup> ref) \<Rightarrow> path \<Rightarrow> ref option" and reg p r
  assume IH: "\<And>reg p y. walk reg p = Some y \<Longrightarrow>
                \<exists>n. reg (toString ((parent_path ^^ n) p)) = Some y"
    and step: "(case reg (toString p) of None \<Rightarrow> walk reg (parent_path p) | Some r \<Rightarrow> Some r)
                 = Some r"
  show "\<exists>n. reg (toString ((parent_path ^^ n) p)) = Some r"
  proof (cases "reg (toString p)")
    case None
    with step have "walk reg (parent_path p) = Some r" by simp
    from IH[OF this] obtain n
      where "reg (toString ((parent_path ^^ n) (parent_path p))) = Some r" by blast
    then have "reg (toString ((parent_path ^^ Suc n) p)) = Some r"
      by (simp add: funpow_swap1)
    then show ?thesis by blast
  next
    case (Some a)
    with step have "reg (toString ((parent_path ^^ 0) p)) = Some r" by simp
    then show ?thesis by blast
  qed
qed

text \<open>When no ancestor's identifier is registered, the walk does not return.\<close>

lemma parent_walk_None:
  "(\<And>n. reg (toString ((parent_path ^^ n) p)) = None) \<Longrightarrow> parent_walk reg p = None"
  by (metis parent_walk_Some option.distinct(1) option.exhaust)

text \<open>When some ancestor's identifier is registered, the walk returns the nearest such Field.\<close>

lemma parent_walk_nearest:
  assumes "reg (toString ((parent_path ^^ n) p)) = Some r"
    and "\<And>m. m < n \<Longrightarrow> reg (toString ((parent_path ^^ m) p)) = None"
  shows "parent_walk reg p = Some r"
  using assms
proof (induction n arbitrary: p)
  case 0
  then show ?case by (simp add: parent_walk_registered)
next
  case (Suc n)
  have "reg (toString p) = None" using Suc.prems(2)[of 0] by simp
  then have "parent_walk reg p = parent_walk reg (parent_path p)" by (rule parent_walk_step)
  moreover have "parent_walk reg (parent_path p) = Some r"
  proof (rule Suc.IH)
    show "reg (toString ((parent_path ^^ n) (parent_path p))) = Some r"
      using Suc.prems(1) by (simp add: funpow_swap1)
    show "reg (toString ((parent_path ^^ m) (parent_path p))) = None" if "m < n" for m
      using Suc.prems(2)[of "Suc m"] that by (simp add: funpow_swap1)
  qed
  ultimately show ?case by simp
qed

text \<open>The getter never returns \<open>undefined\<close>: what it returns is a Field of the registry.\<close>

lemma get_parent_registered:
  "get_parent this w = Some (Inr r) \<Longrightarrow> r \<in> ran (form_fields w)"
  by (auto simp: get_parent_def ran_def split: option.splits dest!: parent_walk_Some)

text \<open>
  On a Field with its Form and Path the getter raises nothing: it returns a registered Field,
  or, when no ancestor's identifier is registered, it does not return.
\<close>

lemma get_parent_bound:
  assumes "form (heap w this) = Some F" and "path (heap w this) = Some p"
  shows "get_parent this w = map_option Inr (parent_walk (form_fields w) (parent_path p))"
  using assms by (simp add: get_parent_def)

lemma get_parent_diverges:
  assumes "form (heap w this) = Some F" and "path (heap w this) = Some p"
    and "\<And>n. form_fields w (toString ((parent_path ^^ n) (parent_path p))) = None"
  shows "get_parent this w = None"
  using parent_walk_None[of "form_fields w" "parent_path p"] assms(3)
  by (simp add: get_parent_bound[OF assms(1,2)])

lemma ancestors_of_top: "(parent_path ^^ n) [s] = (if n = 0 then [s] else [])"
  by (induction n) (simp_all add: parent_path_def)

text \<open>
  C6. The Field at \<open>user.name\<close>, registered under its identifier in a registry that holds no
  other Field: no ancestor of its Path is registered, and reading \<open>parent\<close> does not return.
\<close>

theorem parent_without_registered_ancestor_diverges:
  "get_parent 0 registered = None"
proof -
  have "parent_walk (form_fields registered) [''user''] = None"
    by (rule parent_walk_None) (simp add: ancestors_of_top registered_def user_name_def)
  then show ?thesis
    by (simp add: get_parent_def registered_def example_defs parent_path_def)
qed

subsection \<open>computedDisplay and computedPattern\<close>

lemma family_slots:
  "display (heap family 12) = None" "display (heap family 11) = None"
  "display (heap family 10) = Some none"
  "pattern (heap family 12) = None" "pattern (heap family 11) = None"
  "pattern (heap family 10) = Some disabled"
  by (simp_all add: family_def example_defs)

lemma family_parent_of_c: "get_parent 12 family = Some (Inr 11)"
  by (simp add: get_parent_def family_def example_defs parent_path_def parent_walk_registered)

lemma family_parent_of_b: "get_parent 11 family = Some (Inr 10)"
  by (simp add: get_parent_def family_def example_defs parent_path_def parent_walk_registered)

text \<open>
  C7, as stated, fails: the Field at \<open>a.b.c\<close> has no display and no pattern of its own, its
  parent is the Field at \<open>a.b\<close>, whose computed display is \<open>none\<close> and whose computed pattern is
  \<open>disabled\<close> (both inherited from the Field at \<open>a\<close>); the computed display and the computed
  pattern of the Field at \<open>a.b.c\<close> are \<open>undefined\<close>.
\<close>

theorem computedDisplay_no_chain_walk:
  "display (heap family 12) = None \<and> pattern (heap family 12) = None \<and>
   get_parent 12 family = Some (Inr 11) \<and>
   get_computedDisplay 11 family = Some (Inr (Some none)) \<and>
   get_computedDisplay 12 family = Some (Inr None) \<and>
   get_computedDisplay 12 family \<noteq> get_computedDisplay 11 family \<and>
   get_computedPattern 11 family = Some (Inr (Some disabled)) \<and>
   get_computedPattern 12 family = Some (Inr None) \<and>
   get_computedPattern 12 family \<noteq> get_computedPattern 11 family"
  by (simp add: get_computedDisplay_def get_computedPattern_def family_parent_of_c
      family_parent_of_b family_slots)

text \<open>
  C7, amended. For a Field \<open>f\<close> whose \<open>parent\<close> getter returns the Field \<open>g\<close>: the computed
  display of \<open>f\<close> is its own display when that is set, and otherwise the own \<open>display\<close> slot of
  \<open>g\<close>, whatever the ancestors of \<open>g\<close> hold: it is \<open>undefined\<close> exactly when neither \<open>f\<close> nor
  \<open>g\<close> has a display set. The same holds of the computed pattern and the \<open>pattern\<close> slots.
\<close>

theorem computed_from_parent_slot:
  assumes "get_parent this w = Some (Inr r)"
  shows "get_computedDisplay this w =
           Some (Inr (case display (heap w this) of Some d \<Rightarrow> Some d
                      | None \<Rightarrow> display (heap w r)))
       \<and> get_computedPattern this w =
           Some (Inr (case pattern (heap w this) of Some d \<Rightarrow> Some d
                      | None \<Rightarrow> pattern (heap w r)))"
  using assms
  by (simp add: get_computedDisplay_def get_computedPattern_def split: option.splits)

theorem computed_from_parent_slot_witness:
  "get_parent 12 family = Some (Inr 11) \<and>
   get_computedDisplay 12 family = Some (Inr None) \<and>
   get_computedPattern 12 family = Some (Inr None) \<and>
   get_parent 11 family = Some (Inr 10) \<and>
   get_computedDisplay 11 family = Some (Inr (Some none)) \<and>
   get_computedPattern 11 family = Some (Inr (Some disabled))"
  using computed_from_parent_slot[OF family_parent_of_c]
    computed_from_parent_slot[OF family_parent_of_b]
  by (simp add: family_parent_of_c family_parent_of_b family_slots)

subsection \<open>setDisplay\<close>

lemma setDisplay_none_state:
  assumes "form (heap w this) = Some F" and "path (heap w this) = Some p"
  shows "\<exists>w1. setDisplay this none w = Inr w1 \<and>
           heap w1 = (heap w)(this := (heap w this)
                        \<lparr>recycledValue := (if modified (heap w this) \<or> isValid (getValuesIn p w)
                                            then getValuesIn p w else getInitialValuesIn p w),
                         display := Some none\<rparr>) \<and>
           values w1 = (if void (heap w this) then values w else (values w)(p \<mapsto> Undefined)) \<and>
           initialValues w1 = initialValues w"
  using assms
  by (simp add: setDisplay_def get_value_bound[OF assms] setValue_def toJS_def
        notify_def setValuesIn_def upd_field_def)

lemma setDisplay_visibility_state:
  assumes "form (heap w this) = Some F" and "path (heap w this) = Some p"
    and "display (heap w this) = Some none"
  shows "\<exists>w2. setDisplay this visibility w = Inr w2 \<and>
           heap w2 = (heap w)(this := (heap w this)
                        \<lparr>recycledValue := Null, display := Some visibility\<rparr>) \<and>
           values w2 = (if void (heap w this) then values w
                        else (values w)(p \<mapsto> recycledValue (heap w this))) \<and>
           initialValues w2 = initialValues w"
  using assms
  by (simp add: setDisplay_def setValue_def notify_def setValuesIn_def upd_field_def)

text \<open>
  C8. For a Field with its Form and Path, whatever its display is: \<open>setDisplay('none')\<close>
  followed by \<open>setDisplay('visibility')\<close> both complete, the value of the Field after them
  equals its value before them, the value at the moment \<open>none\<close> was set, and
  \<open>recycledValue\<close> is \<open>null\<close> again.
\<close>

theorem display_round_trip:
  assumes "form (heap w this) = Some F" and "path (heap w this) = Some p"
  shows "\<exists>w1 w2. setDisplay this none w = Inr w1 \<and> setDisplay this visibility w1 = Inr w2 \<and>
           get_value this w2 = get_value this w \<and>
           recycledValue (heap w2 this) = Null \<and>
           display (heap w2 this) = Some visibility"
proof -
  define v0 where "v0 = (if modified (heap w this) \<or> isValid (getValuesIn p w)
                         then getValuesIn p w else getInitialValuesIn p w)"
  obtain w1 where s1: "setDisplay this none w = Inr w1"
    and h1: "heap w1 = (heap w)(this := (heap w this)\<lparr>recycledValue := v0, display := Some none\<rparr>)"
    and v1: "values w1 = (if void (heap w this) then values w else (values w)(p \<mapsto> Undefined))"
    and i1: "initialValues w1 = initialValues w"
    using setDisplay_none_state[OF assms] unfolding v0_def by blast
  have b1: "form (heap w1 this) = Some F" "path (heap w1 this) = Some p"
    "display (heap w1 this) = Some none"
    using assms by (simp_all add: h1)
  obtain w2 where s2: "setDisplay this visibility w1 = Inr w2"
    and h2: "heap w2 = (heap w1)(this := (heap w1 this)
                          \<lparr>recycledValue := Null, display := Some visibility\<rparr>)"
    and v2: "values w2 = (if void (heap w1 this) then values w1
                          else (values w1)(p \<mapsto> recycledValue (heap w1 this)))"
    and i2: "initialValues w2 = initialValues w1"
    using setDisplay_visibility_state[OF b1] by blast
  have b2: "form (heap w2 this) = Some F" "path (heap w2 this) = Some p"
    using b1 by (simp_all add: h2)
  have m2: "modified (heap w2 this) = modified (heap w this)"
    and vd: "void (heap w1 this) = void (heap w this)"
    by (simp_all add: h2 h1)
  have stored: "getValuesIn p w2 = (if void (heap w this) then getValuesIn p w else v0)"
    by (simp add: getValuesIn_def v2 v1 vd h1)
  have initial: "getInitialValuesIn p w2 = getInitialValuesIn p w"
    by (simp add: getInitialValuesIn_def i2 i1)
  have "get_value this w2 = get_value this w"
    unfolding get_value_bound[OF b2] get_value_bound[OF assms] m2 stored initial
    by (simp add: v0_def)
  moreover have "recycledValue (heap w2 this) = Null" "display (heap w2 this) = Some visibility"
    by (simp_all add: h2)
  ultimately show ?thesis
    using s1 s2 by blast
qed

theorem display_round_trip_witness:
  "get_value 0 created = Inr (Str ''Al'') \<and>
   (\<exists>w1 w2. setDisplay 0 none created = Inr w1 \<and> setDisplay 0 visibility w1 = Inr w2 \<and>
      get_value 0 w2 = Inr (Str ''Al'') \<and> recycledValue (heap w2 0) = Null \<and>
      display (heap w2 0) = Some visibility)"
proof -
  have "get_value 0 created = Inr (Str ''Al'')"
    by (simp add: get_value_bound[OF created_facts(1,2)] created_facts getValuesIn_def
        isValid_def)
  with display_round_trip[OF created_facts(1,2)] show ?thesis by simp
qed

subsection \<open>onUnmount\<close>

lemma get_computedDisplay_cong:
  assumes "form_fields w' = form_fields w"
    and "\<And>r. display (heap w' r) = display (heap w r)"
    and "path (heap w' this) = path (heap w this)"
    and "form (heap w' this) = form (heap w this)"
  shows "get_computedDisplay this w' = get_computedDisplay this w"
  using assms
  by (simp add: get_computedDisplay_def get_parent_def split: option.splits sum.splits)

lemma unmounting_state:
  "heap (unmounting this w) this =
     (heap w this)\<lparr>mounted := False, unmounted := True, validating := True\<rparr>"
  "values (unmounting this w) = values w"
  "form_fields (unmounting this w) = form_fields w"
  by (simp_all add: unmounting_def store_defs)

text \<open>\<open>onUnmount\<close> on a Field with its Form and Path, in terms of the state before the call.\<close>

lemma onUnmount_bound:
  assumes "form (heap w this) = Some F" and "path (heap w this) = Some p"
  shows "onUnmount this w =
     (if existIn w p then
        (case get_computedDisplay this w of
           None \<Rightarrow> None
         | Some (Inl e) \<Rightarrow> Some (Inl e)
         | Some (Inr d) \<Rightarrow>
             if d = Some none \<or> d = Some visibility
             then Some (setValue this Undefined (unmounting this w))
             else Some (Inr (unmounting this w)))
      else Some (Inr ((unmounting this w)
                  \<lparr>form_fields := (form_fields w)(toString p := None)\<rparr>)))"
proof -
  let ?w1 = "upd_field this (\<lambda>f. f\<lparr>mounted := False, unmounted := True\<rparr>) w"
  have b1: "form (heap ?w1 this) = Some F" "path (heap ?w1 this) = Some p"
    using assms by (simp_all add: upd_field_def)
  have u: "fst (validate_begin this ?w1) =
             notify ON_FIELD_VALIDATE_START (FieldPayload this) (setValidating this True ?w1)"
    by (simp add: validate_begin_bound[OF b1])
  have b3: "form (heap (unmounting this w) this) = Some F"
    "path (heap (unmounting this w) this) = Some p"
    "form (heap (notify ON_FIELD_VALIDATE_START (FieldPayload this)
        (setValidating this True ?w1)) this) = Some F"
    using assms by (simp_all add: unmounting_def store_defs)
  have e: "existIn (unmounting this w) p = existIn w p"
    "form_fields (unmounting this w) = form_fields w"
    by (simp_all add: unmounting_def store_defs)
  have c: "get_computedDisplay this (unmounting this w) = get_computedDisplay this w"
    by (rule get_computedDisplay_cong) (simp_all add: unmounting_def store_defs)
  show ?thesis
    unfolding onUnmount_def Let_def u
    unfolding unmounting_def[symmetric]
    using b3 e c by simp
qed

text \<open>
  When the Path exists in the values tree and the read of \<open>computedDisplay\<close> does not return,
  \<open>onUnmount\<close> does not return.
\<close>

lemma onUnmount_diverges:
  assumes "form (heap w this) = Some F" and "path (heap w this) = Some p"
    and "existIn w p" and "get_computedDisplay this w = None"
  shows "onUnmount this w = None"
  using assms(3,4) by (simp add: onUnmount_bound[OF assms(1,2)])

text \<open>
  C9, as stated, fails: the void Field at \<open>user.name\<close> has display \<open>none\<close>, its Path exists in
  the values tree and holds \<open>"x"\<close>; \<open>onUnmount\<close> returns and the tree still holds \<open>"x"\<close> at the
  Path.
\<close>

theorem onUnmount_void_keeps_value:
  "existIn void_display_none user_name \<and>
   get_computedDisplay 0 void_display_none = Some (Inr (Some none)) \<and>
   onUnmount 0 void_display_none = Some (Inr (unmounting 0 void_display_none)) \<and>
   values (unmounting 0 void_display_none) user_name = Some (Str ''x'')"
  by (simp add: onUnmount_bound[OF void_display_none_facts(1,2)] void_display_none_facts
      setValue_def unmounting_state)

text \<open>
  C9, amended. For a Field with its Form and Path: if the Path does not exist in the values
  tree, \<open>onUnmount\<close> returns, the registry entry of the Path's identifier is deleted and the
  values tree is unchanged; if the Path exists and the read of \<open>computedDisplay\<close> returns \<open>d\<close>,
  \<open>onUnmount\<close> returns, the registry is unchanged, and the values tree holds \<open>undefined\<close> at
  the Path when \<open>d\<close> is \<open>none\<close> or \<open>visibility\<close> and the Field is not void, and is unchanged
  otherwise. In both cases \<open>mounted\<close> is false and \<open>unmounted\<close> is true afterwards.
\<close>

theorem onUnmount_outcome:
  assumes "form (heap w this) = Some F" and "path (heap w this) = Some p"
  shows "(\<not> existIn w p \<longrightarrow>
            (\<exists>w'. onUnmount this w = Some (Inr w') \<and>
                  form_fields w' = (form_fields w)(toString p := None) \<and>
                  values w' = values w \<and>
                  \<not> mounted (heap w' this) \<and> unmounted (heap w' this)))
       \<and> (existIn w p \<longrightarrow>
            (\<forall>d. get_computedDisplay this w = Some (Inr d) \<longrightarrow>
              (\<exists>w'. onUnmount this w = Some (Inr w') \<and>
                    form_fields w' = form_fields w \<and>
                    values w' =
                      (if (d = Some none \<or> d = Some visibility) \<and> \<not> void (heap w this)
                       then (values w)(p \<mapsto> Undefined) else values w) \<and>
                    \<not> mounted (heap w' this) \<and> unmounted (heap w' this))))"
proof -
  have b3: "form (heap (unmounting this w) this) = Some F"
    "path (heap (unmounting this w) this) = Some p"
    "void (heap (unmounting this w) this) = void (heap w this)"
    using assms by (simp_all add: unmounting_state)
  have clear: "\<exists>w'. setValue this Undefined (unmounting this w) = Inr w' \<and>
                 form_fields w' = form_fields w \<and>
                 values w' = (if void (heap w this) then values w
                              else (values w)(p \<mapsto> Undefined)) \<and>
                 \<not> mounted (heap w' this) \<and> unmounted (heap w' this)"
    using b3 by (simp add: setValue_def unmounting_state notify_def setValuesIn_def)
  show ?thesis
    unfolding onUnmount_bound[OF assms]
    using clear by (auto simp: unmounting_state)
qed

theorem onUnmount_outcome_witness:
  "(\<exists>w'. onUnmount 0 display_none = Some (Inr w') \<and>
         form_fields w' = [toString user_name \<mapsto> 0] \<and>
         values w' = [user_name \<mapsto> Undefined] \<and>
         \<not> mounted (heap w' 0) \<and> unmounted (heap w' 0))
 \<and> (\<exists>w'. onUnmount 0 allocated = Some (Inr w') \<and>
         form_fields w' = Map.empty \<and>
         \<not> mounted (heap w' 0) \<and> unmounted (heap w' 0))"
  using onUnmount_outcome[OF display_none_facts(1,2)] onUnmount_outcome[OF allocated_facts(1,2)]
  by (auto simp: display_none_facts allocated_facts)

subsection \<open>setComponentProps and setDecoratorProps\<close>

text \<open>The shallow merge writes each key of the source into the target.\<close>

lemma map_of_obj_set: "map_of (obj_set k v kvs) = (map_of kvs)(k \<mapsto> v)"
  by (induction kvs) auto








end
